theory Spec2Isabelle
  imports Main
begin

section \<open>Data model of the chat backend (src/chat.ts)\<close>

text \<open>
  JavaScript strings are modelled as \<^typ>\<open>string\<close>, one \<^typ>\<open>char\<close> per code unit
  below 256. Identifiers (user, conversation and message ids) are only ever compared for
  equality by the code.
\<close>

text \<open>
  The request body and \<open>mediaMeta\<close> are JSON values. Numbers are never inspected by
  the code, so an integer stands for the number carried.
\<close>

datatype json =
    JNull
  | JBool bool
  | JNum int
  | JStr string
  | JArr "json list"
  | JObj "(string \<times> json) list"

text \<open>\<open>z.enum(["text", "image", "video", "audio"])\<close>\<close>

datatype msg_type = Text | Image | Video | Audio

text \<open>
  Modelled from the spec: the Persistence Gateway. \<open>db.ts\<close> (the function \<open>q\<close> that
  runs a SQL statement) is not among the sources; the tables are the ones the SQL text
  of \<open>chat.ts\<close> names, with the columns it names. A conversation has an identifier and
  two participant identifiers; a message row has the six inserted columns, and the
  identifier and creation time the database assigns.
\<close>

record conversation =
  c_id :: string
  user_a_id :: string
  user_b_id :: string

record message_row =
  m_id :: string
  m_conversation_id :: string
  m_sender_id :: string
  m_type :: msg_type
  m_text :: "string option"
  m_media_url :: "string option"
  m_media_meta :: json
  m_created_at :: nat

text \<open>\<open>type WsClient = { uid; conversationId; socket }\<close>. The socket is an object of the
  websocket library; the record holds a reference to it, modelled as a number that
  identifies the socket object.\<close>

record WsClient =
  uid :: string
  conversationId :: string
  socket :: nat

text \<open>The event handed to \<open>socket.send\<close> (the argument of \<open>JSON.stringify\<close>).\<close>

record ws_event =
  e_event :: string
  e_id :: string
  e_conversationId :: string
  e_senderId :: string
  e_type :: msg_type
  e_text :: "string option"
  e_mediaUrl :: "string option"
  e_mediaMeta :: json

text \<open>A call of \<open>socket.send\<close> either returns or throws.\<close>

datatype outcome = Sent | Threw

type_synonym send_call = "nat \<times> ws_event \<times> outcome"

text \<open>
  The state the handlers read and write: the two tables, the module-level array
  \<open>wsClients\<close>, the calls of \<open>socket.send\<close> made so far (oldest first) and the sockets
  on which the server has called \<open>close()\<close>.
\<close>

record state =
  conversations :: "conversation list"
  messages :: "message_row list"
  wsClients :: "WsClient list"
  wire :: "send_call list"
  closed :: "nat list"

text \<open>
  What the handlers take from libraries and from the environment of one request:
  zod's \<open>uuid()\<close> check, \<open>app.jwt.verify\<close> (the \<open>uid\<close> of the payload of a token that
  verifies, \<open>None\<close> when it throws), whether \<open>send\<close> throws on a socket, and the
  identifier and creation time the database assigns to an inserted row.
\<close>

record env =
  is_uuid :: "string \<Rightarrow> bool"
  jwt_verify :: "string \<Rightarrow> string option"
  send_throws :: "nat \<Rightarrow> bool"
  assigned_id :: string
  assigned_at :: nat

section \<open>Authorization check\<close>

text \<open>
  \<^verbatim>\<open>select true as ok from conversations
  where id=$1 and (user_a_id=$2 or user_b_id=$2) limit 1\<close>
\<close>

definition participant_rows :: "state \<Rightarrow> string \<Rightarrow> string \<Rightarrow> bool list" where
  "participant_rows st cid u =
     take 1 (map (\<lambda>c. True)
       (filter (\<lambda>c. c_id c = cid \<and> (user_a_id c = u \<or> user_b_id c = u)) (conversations st)))"

text \<open>\<open>return !!rows[0]?.ok\<close>: no first row gives \<open>false\<close>.\<close>

definition isParticipant :: "state \<Rightarrow> string \<Rightarrow> string \<Rightarrow> bool" where
  "isParticipant st cid u =
     (case participant_rows st cid u of [] \<Rightarrow> False | ok # _ \<Rightarrow> ok)"

section \<open>History: GET /conversations/:id/messages\<close>

text \<open>
  The replies the two HTTP handlers send with \<open>reply.code(...)\<close>: 400 "Dados
  invalidos", 403 "Sem acesso a esta conversa", 400 "Texto obrigatorio" and 400
  "mediaUrl obrigatorio para midia".
\<close>

datatype reject = Dados_invalidos | Sem_acesso | Texto_obrigatorio | MediaUrl_obrigatorio

fun status_code :: "reject \<Rightarrow> nat" where
  "status_code Dados_invalidos = 400"
| "status_code Sem_acesso = 403"
| "status_code Texto_obrigatorio = 400"
| "status_code MediaUrl_obrigatorio = 400"

text \<open>The columns the history query selects (\<open>conversation_id\<close> is not among them).\<close>

record history_row =
  h_id :: string
  h_senderId :: string
  h_type :: msg_type
  h_text :: "string option"
  h_mediaUrl :: "string option"
  h_mediaMeta :: json
  h_createdAt :: nat

definition select_columns :: "message_row \<Rightarrow> history_row" where
  "select_columns m =
     \<lparr>h_id = m_id m, h_senderId = m_sender_id m, h_type = m_type m, h_text = m_text m,
      h_mediaUrl = m_media_url m, h_mediaMeta = m_media_meta m, h_createdAt = m_created_at m\<rparr>"

text \<open>
  \<^verbatim>\<open>from messages where conversation_id=$1 order by created_at asc limit 500\<close>.
  SQL leaves the order of rows with equal \<open>created_at\<close> open; the model keeps them in
  table order.
\<close>

definition history_rows :: "state \<Rightarrow> string \<Rightarrow> message_row list" where
  "history_rows st cid =
     take 500 (sort_key m_created_at (filter (\<lambda>m. m_conversation_id m = cid) (messages st)))"

definition get_messages :: "state \<Rightarrow> string \<Rightarrow> string \<Rightarrow> reject + history_row list" where
  "get_messages st u cid =
     (if \<not> isParticipant st cid u then Inl Sem_acesso
      else Inr (map select_columns (history_rows st cid)))"

section \<open>Sending: POST /messages\<close>

subsection \<open>The body schema\<close>

record SendMessageBody =
  b_conversationId :: string
  b_type :: msg_type
  b_text :: "string option"
  b_mediaUrl :: "string option"
  b_mediaMeta :: "json option"

definition parse_type :: "string \<Rightarrow> msg_type option" where
  "parse_type s =
     (if s = ''text'' then Some Text
      else if s = ''image'' then Some Image
      else if s = ''video'' then Some Video
      else if s = ''audio'' then Some Audio
      else None)"

text \<open>\<open>z.string().optional()\<close>: an absent key is accepted, a value that is not a string
  (\<open>null\<close> too) is refused. The outer \<open>None\<close> is the refusal.\<close>

fun optional_string :: "json option \<Rightarrow> string option option" where
  "optional_string None = Some None"
| "optional_string (Some (JStr s)) = Some (Some s)"
| "optional_string (Some _) = None"

text \<open>\<open>SendMessageBody.safeParse(req.body)\<close>; \<open>None\<close> is \<open>success: false\<close>. Keys the
  schema does not name are dropped.\<close>

definition safeParse :: "(string \<Rightarrow> bool) \<Rightarrow> json \<Rightarrow> SendMessageBody option" where
  "safeParse uuid body =
     (case body of
        JObj kv \<Rightarrow>
          (case (map_of kv ''conversationId'', map_of kv ''type'') of
             (Some (JStr cid), Some (JStr ty)) \<Rightarrow>
               (case (parse_type ty, optional_string (map_of kv ''text''),
                      optional_string (map_of kv ''mediaUrl'')) of
                  (Some t, Some tx, Some mu) \<Rightarrow>
                    if uuid cid
                    then Some \<lparr>b_conversationId = cid, b_type = t, b_text = tx,
                               b_mediaUrl = mu, b_mediaMeta = map_of kv ''mediaMeta''\<rparr>
                    else None
                | _ \<Rightarrow> None)
           | _ \<Rightarrow> None)
      | _ \<Rightarrow> None)"

subsection \<open>Content checks\<close>

text \<open>The white space and line terminators \<open>String.prototype.trim\<close> strips, among the
  code units below 256: TAB, LF, VT, FF, CR, SP and NBSP.\<close>

definition is_ws :: "char \<Rightarrow> bool" where
  "is_ws c = (c \<in> set [CHR 0x09, CHR 0x0A, CHR 0x0B, CHR 0x0C, CHR 0x0D, CHR 0x20, CHR 0xA0])"

definition js_trim :: "string \<Rightarrow> string" where
  "js_trim s = rev (dropWhile is_ws (rev (dropWhile is_ws s)))"

text \<open>JavaScript truthiness of a \<open>string | undefined | null\<close>: a non-empty string.\<close>

fun truthy :: "string option \<Rightarrow> bool" where
  "truthy None = False"
| "truthy (Some s) = (s \<noteq> [])"

text \<open>\<open>!text || !text.trim()\<close>\<close>

fun text_missing :: "string option \<Rightarrow> bool" where
  "text_missing None = True"
| "text_missing (Some s) = (s = [] \<or> js_trim s = [])"

subsection \<open>Insert and broadcast\<close>

text \<open>\<open>mediaMeta ?? null\<close>\<close>

fun or_null :: "json option \<Rightarrow> json" where
  "or_null None = JNull"
| "or_null (Some v) = v"

text \<open>
  \<^verbatim>\<open>insert into messages (conversation_id, sender_id, type, text, media_url, media_meta)
  values ($1,$2,$3,$4,$5,$6) returning id\<close> with the parameters
  \<open>[conversationId, uid, type, text ?? null, mediaUrl ?? null, mediaMeta ?? null]\<close>.
  For the two optional strings \<open>None\<close> stands for \<open>undefined\<close>, \<open>null\<close> and SQL NULL
  alike, so \<open>text ?? null\<close> is \<open>text\<close>. The statement returns one row, whose \<open>id\<close> the
  handler reads as \<open>rows[0]!.id\<close>.
\<close>

definition new_row :: "env \<Rightarrow> string \<Rightarrow> SendMessageBody \<Rightarrow> message_row" where
  "new_row e u b =
     \<lparr>m_id = assigned_id e, m_conversation_id = b_conversationId b, m_sender_id = u,
      m_type = b_type b, m_text = b_text b, m_media_url = b_mediaUrl b,
      m_media_meta = or_null (b_mediaMeta b), m_created_at = assigned_at e\<rparr>"

definition insert_message :: "env \<Rightarrow> state \<Rightarrow> string \<Rightarrow> SendMessageBody \<Rightarrow> string \<times> state" where
  "insert_message e st u b =
     (assigned_id e, st\<lparr>messages := messages st @ [new_row e u b]\<rparr>)"

text \<open>The object given to \<open>JSON.stringify\<close>.\<close>

definition message_new :: "string \<Rightarrow> string \<Rightarrow> SendMessageBody \<Rightarrow> ws_event" where
  "message_new messageId u b =
     \<lparr>e_event = ''message:new'', e_id = messageId, e_conversationId = b_conversationId b,
      e_senderId = u, e_type = b_type b, e_text = b_text b, e_mediaUrl = b_mediaUrl b,
      e_mediaMeta = or_null (b_mediaMeta b)\<rparr>"

text \<open>\<open>c.socket.send(...)\<close>: the call is recorded; \<open>Inl\<close> is the exception.\<close>

definition socket_send :: "env \<Rightarrow> nat \<Rightarrow> ws_event \<Rightarrow> send_call list \<Rightarrow> (unit + unit) \<times> send_call list" where
  "socket_send e s ev w =
     (if send_throws e s then (Inl (), w @ [(s, ev, Threw)]) else (Inr (), w @ [(s, ev, Sent)]))"

text \<open>\<open>.forEach((c) => { try { c.socket.send(...) } catch {} })\<close>: the exception of
  one call is swallowed and the loop goes on.\<close>

fun broadcast :: "env \<Rightarrow> WsClient list \<Rightarrow> ws_event \<Rightarrow> send_call list \<Rightarrow> send_call list" where
  "broadcast e [] ev w = w"
| "broadcast e (c # cs) ev w =
     (case socket_send e (socket c) ev w of
        (Inl _, w') \<Rightarrow> broadcast e cs ev w'
      | (Inr _, w') \<Rightarrow> broadcast e cs ev w')"

text \<open>Lines 96 to 127: the insert, the broadcast to the connections of the
  conversation, and the reply.\<close>

definition persist_and_broadcast :: "env \<Rightarrow> state \<Rightarrow> string \<Rightarrow> SendMessageBody \<Rightarrow> (reject + string) \<times> state" where
  "persist_and_broadcast e st u b =
     (let (messageId, st1) = insert_message e st u b;
          targets = filter (\<lambda>c. conversationId c = b_conversationId b) (wsClients st1)
      in (Inr messageId,
          st1\<lparr>wire := broadcast e targets (message_new messageId u b) (wire st1)\<rparr>))"

subsection \<open>The handler\<close>

text \<open>The handler runs after \<open>requireAuth\<close>; \<open>u\<close> is \<open>req.user.uid\<close>. \<open>Inr\<close> carries the
  \<open>id\<close> of the reply \<open>{ ok: true, id: messageId }\<close>.\<close>

definition send_message :: "env \<Rightarrow> state \<Rightarrow> string \<Rightarrow> json \<Rightarrow> (reject + string) \<times> state" where
  "send_message e st u body =
     (case safeParse (is_uuid e) body of
        None \<Rightarrow> (Inl Dados_invalidos, st)
      | Some b \<Rightarrow>
          if \<not> isParticipant st (b_conversationId b) u then (Inl Sem_acesso, st)
          else if b_type b = Text
          then (if text_missing (b_text b) then (Inl Texto_obrigatorio, st)
                else persist_and_broadcast e st u b)
          else (if \<not> truthy (b_mediaUrl b) then (Inl MediaUrl_obrigatorio, st)
                else persist_and_broadcast e st u b))"

section \<open>Realtime connections: GET /ws\<close>

record ws_request =
  authorization :: "string option"
  query_token :: "string option"
  query_conversationId :: "string option"

text \<open>\<open>auth?.startsWith("Bearer ") ? auth.slice("Bearer ".length) : null\<close>\<close>

definition tokenFromHeader :: "ws_request \<Rightarrow> string option" where
  "tokenFromHeader req =
     (case authorization req of
        None \<Rightarrow> None
      | Some a \<Rightarrow> if take 7 a = ''Bearer '' then Some (drop 7 a) else None)"

text \<open>\<open>a || b\<close> on \<open>string | null\<close>.\<close>

definition js_or :: "string option \<Rightarrow> string option \<Rightarrow> string option" where
  "js_or a b = (if truthy a then a else b)"

text \<open>\<open>(req.query?.token as string) || null\<close>\<close>

definition tokenFromQuery :: "ws_request \<Rightarrow> string option" where
  "tokenFromQuery req = js_or (query_token req) None"

definition handshake_token :: "ws_request \<Rightarrow> string option" where
  "handshake_token req = js_or (tokenFromHeader req) (tokenFromQuery req)"

text \<open>\<open>connection.socket.close(); return\<close>\<close>

definition reject_socket :: "state \<Rightarrow> nat \<Rightarrow> state" where
  "reject_socket st sock = st\<lparr>closed := closed st @ [sock]\<rparr>"

text \<open>The handler of the route; \<open>sock\<close> is \<open>connection.socket\<close>.\<close>

definition ws_handler :: "env \<Rightarrow> state \<Rightarrow> nat \<Rightarrow> ws_request \<Rightarrow> state" where
  "ws_handler e st sock req =
     (case handshake_token req of
        None \<Rightarrow> reject_socket st sock
      | Some token \<Rightarrow>
          if token = [] then reject_socket st sock
          else
            (case jwt_verify e token of
               None \<Rightarrow> reject_socket st sock
             | Some payload_uid \<Rightarrow>
                 (let cid = (case js_or (query_conversationId req) (Some []) of
                               None \<Rightarrow> [] | Some c \<Rightarrow> c)
                  in if cid = [] then reject_socket st sock
                     else if \<not> isParticipant st cid payload_uid then reject_socket st sock
                     else st\<lparr>wsClients := wsClients st @
                            [\<lparr>uid = payload_uid, conversationId = cid, socket = sock\<rparr>]\<rparr>)))"

text \<open>\<open>wsClients.indexOf(client)\<close>: the first position, or \<open>-1\<close>. Two records of the
  registry are the same object exactly when they hold the same socket.\<close>

fun indexOf :: "'a list \<Rightarrow> 'a \<Rightarrow> int" where
  "indexOf [] x = - 1"
| "indexOf (y # ys) x =
     (if y = x then 0 else (let i = indexOf ys x in if i < 0 then - 1 else i + 1))"

text \<open>\<open>xs.splice(idx, 1)\<close> for \<open>idx >= 0\<close>.\<close>

definition splice1 :: "'a list \<Rightarrow> nat \<Rightarrow> 'a list" where
  "splice1 xs i = take i xs @ drop (Suc i) xs"

text \<open>The listener of the socket's \<open>close\<close> event.\<close>

definition on_close :: "state \<Rightarrow> WsClient \<Rightarrow> state" where
  "on_close st client =
     (let idx = indexOf (wsClients st) client
      in if idx \<ge> 0 then st\<lparr>wsClients := splice1 (wsClients st) (nat idx)\<rparr> else st)"

section \<open>Runs of the server\<close>

text \<open>
  The states the server passes through: it starts with \<open>wsClients = []\<close>; every new
  connection brings a socket object of its own; a \<open>close\<close> event runs the listener; a
  request runs \<open>POST /messages\<close>. The history route changes nothing, and no handler
  writes the conversations table.
\<close>

inductive reachable :: "state \<Rightarrow> bool" where
  start: "wsClients st = [] \<Longrightarrow> reachable st"
| connect: "reachable st \<Longrightarrow> sock \<notin> socket ` set (wsClients st) \<Longrightarrow>
            reachable (ws_handler e st sock req)"
| disconnect: "reachable st \<Longrightarrow> reachable (on_close st c)"
| post: "reachable st \<Longrightarrow> reachable (snd (send_message e st u body))"

section \<open>The send operation as the specification words it\<close>

text \<open>
  The specification's \<open>send(conversationId, senderId, type, text?, mediaUrl?,
  mediaMeta?)\<close> and its three outcomes. \<open>body_of\<close> is the JSON body that carries such a
  request; \<open>verdict_of\<close> reads the handler's reply (403 is Forbidden, 400 is
  InvalidInput).
\<close>

record send_request =
  r_conversationId :: string
  r_type :: string
  r_text :: "string option"
  r_mediaUrl :: "string option"
  r_mediaMeta :: "json option"

definition body_of :: "send_request \<Rightarrow> json" where
  "body_of r =
     JObj ([(''conversationId'', JStr (r_conversationId r)), (''type'', JStr (r_type r))]
           @ (case r_text r of None \<Rightarrow> [] | Some t \<Rightarrow> [(''text'', JStr t)])
           @ (case r_mediaUrl r of None \<Rightarrow> [] | Some m \<Rightarrow> [(''mediaUrl'', JStr m)])
           @ (case r_mediaMeta r of None \<Rightarrow> [] | Some v \<Rightarrow> [(''mediaMeta'', v)]))"

datatype verdict = InvalidInput | Forbidden | Accepted

fun verdict_of :: "reject + string \<Rightarrow> verdict" where
  "verdict_of (Inl r) = (if status_code r = 403 then Forbidden else InvalidInput)"
| "verdict_of (Inr _) = Accepted"

text \<open>What a body holds under a key: the string there (\<open>None\<close> when the key is absent
  or its value is not a string), and whether the key is there at all.\<close>

definition string_field :: "json \<Rightarrow> string \<Rightarrow> string option" where
  "string_field body k =
     (case body of
        JObj kv \<Rightarrow> (case map_of kv k of Some (JStr s) \<Rightarrow> Some s | _ \<Rightarrow> None)
      | _ \<Rightarrow> None)"

definition field_present :: "json \<Rightarrow> string \<Rightarrow> bool" where
  "field_present body k = (case body of JObj kv \<Rightarrow> map_of kv k \<noteq> None | _ \<Rightarrow> False)"

text \<open>
  The four checks in the order and with the content the specification gives them,
  over any request body: (1) well-formed conversationId and recognized type, (2) the
  sender is a participant, (3) for type text, a text that is present and non-empty
  after trimming, (4) for the other types, a mediaUrl that is present. The first check
  that fails decides.
\<close>

definition checks_as_specified :: "env \<Rightarrow> state \<Rightarrow> string \<Rightarrow> json \<Rightarrow> verdict" where
  "checks_as_specified e st u body =
     (case (string_field body ''conversationId'', string_field body ''type'') of
        (Some cid, Some ty) \<Rightarrow>
          if \<not> (is_uuid e cid \<and> ty \<in> set [''text'', ''image'', ''video'', ''audio''])
          then InvalidInput
          else if \<not> isParticipant st cid u then Forbidden
          else if ty = ''text''
                  \<and> (case string_field body ''text'' of None \<Rightarrow> True | Some t \<Rightarrow> js_trim t = [])
          then InvalidInput
          else if ty \<noteq> ''text'' \<and> \<not> field_present body ''mediaUrl'' then InvalidInput
          else Accepted
      | _ \<Rightarrow> InvalidInput)"

text \<open>
  The same, with two changes. Check (1) is the whole schema: well-formed conversationId,
  recognized type, and a text and a mediaUrl that are strings when they are present.
  Check (4) asks for a mediaUrl that is present and not the empty string.
\<close>

definition checks_amended :: "env \<Rightarrow> state \<Rightarrow> string \<Rightarrow> json \<Rightarrow> verdict" where
  "checks_amended e st u body =
     (case (string_field body ''conversationId'', string_field body ''type'') of
        (Some cid, Some ty) \<Rightarrow>
          if \<not> (is_uuid e cid \<and> ty \<in> set [''text'', ''image'', ''video'', ''audio'']
                 \<and> (field_present body ''text'' \<longrightarrow> string_field body ''text'' \<noteq> None)
                 \<and> (field_present body ''mediaUrl'' \<longrightarrow> string_field body ''mediaUrl'' \<noteq> None))
          then InvalidInput
          else if \<not> isParticipant st cid u then Forbidden
          else if ty = ''text''
                  \<and> (case string_field body ''text'' of None \<Rightarrow> True | Some t \<Rightarrow> js_trim t = [])
          then InvalidInput
          else if ty \<noteq> ''text''
                  \<and> (string_field body ''mediaUrl'' = None \<or> string_field body ''mediaUrl'' = Some [])
          then InvalidInput
          else Accepted
      | _ \<Rightarrow> InvalidInput)"

text \<open>The text string a body submits: \<open>None\<close> when the body has no text string.\<close>

definition submitted_text :: "json \<Rightarrow> string option" where
  "submitted_text body =
     (case body of
        JObj kv \<Rightarrow> (case map_of kv ''text'' of Some (JStr s) \<Rightarrow> Some s | _ \<Rightarrow> None)
      | _ \<Rightarrow> None)"

text \<open>
  The checks of the handshake as the specification lists them, for a user \<open>u\<close> and a
  conversation \<open>cid\<close>: a token was supplied, the token verifies and names \<open>u\<close>, the
  conversationId \<open>cid\<close> was supplied, and \<open>u\<close> is a participant of \<open>cid\<close>.
\<close>

definition handshake_passes :: "env \<Rightarrow> state \<Rightarrow> ws_request \<Rightarrow> string \<Rightarrow> string \<Rightarrow> bool" where
  "handshake_passes e st req u cid \<longleftrightarrow>
     (case handshake_token req of None \<Rightarrow> False | Some token \<Rightarrow> jwt_verify e token = Some u)
     \<and> query_conversationId req = Some cid \<and> cid \<noteq> []
     \<and> isParticipant st cid u"

text \<open>An event carries the fields of a stored row.\<close>

definition matches_row :: "ws_event \<Rightarrow> message_row \<Rightarrow> bool" where
  "matches_row ev m \<longleftrightarrow>
     e_event ev = ''message:new'' \<and> e_id ev = m_id m
     \<and> e_conversationId ev = m_conversation_id m \<and> e_senderId ev = m_sender_id m
     \<and> e_type ev = m_type m \<and> e_text ev = m_text m \<and> e_mediaUrl ev = m_media_url m
     \<and> e_mediaMeta ev = m_media_meta m"

text \<open>The calls of \<open>send\<close> made on one socket.\<close>

definition calls_on :: "nat \<Rightarrow> send_call list \<Rightarrow> send_call list" where
  "calls_on s w = filter (\<lambda>x. fst x = s) w"

section \<open>Sample data\<close>

text \<open>An instance of the identifier check: the 8-4-4-4-12 shape of hexadecimal
  digits.\<close>

definition is_hex :: "char \<Rightarrow> bool" where
  "is_hex c = (c \<in> set ''0123456789abcdefABCDEF'')"

definition uuid_shape :: "string \<Rightarrow> bool" where
  "uuid_shape s \<longleftrightarrow>
     length s = 36
     \<and> list_all is_hex (take 8 s) \<and> s ! 8 = CHR ''-''
     \<and> list_all is_hex (take 4 (drop 9 s)) \<and> s ! 13 = CHR ''-''
     \<and> list_all is_hex (take 4 (drop 14 s)) \<and> s ! 18 = CHR ''-''
     \<and> list_all is_hex (take 4 (drop 19 s)) \<and> s ! 23 = CHR ''-''
     \<and> list_all is_hex (drop 24 s)"

abbreviation conv1 :: string where
  "conv1 \<equiv> ''11111111-1111-4111-8111-111111111111''"

abbreviation conv2 :: string where
  "conv2 \<equiv> ''22222222-2222-4222-8222-222222222222''"

text \<open>Two conversations: \<open>u1\<close> and \<open>u2\<close> talk in the first, \<open>u3\<close> and \<open>u4\<close> in the
  second. Three sockets are registered: two on the first conversation, one on the
  second.\<close>

definition sample_state :: state where
  "sample_state =
     \<lparr>conversations =
        [\<lparr>c_id = conv1, user_a_id = ''u1'', user_b_id = ''u2''\<rparr>,
         \<lparr>c_id = conv2, user_a_id = ''u3'', user_b_id = ''u4''\<rparr>],
      messages = [],
      wsClients =
        [\<lparr>uid = ''u1'', conversationId = conv1, socket = 0\<rparr>,
         \<lparr>uid = ''u2'', conversationId = conv1, socket = 1\<rparr>,
         \<lparr>uid = ''u3'', conversationId = conv2, socket = 2\<rparr>],
      wire = [],
      closed = []\<rparr>"

text \<open>Tokens \<open>t1\<close> and \<open>t3\<close> verify; \<open>send\<close> throws on socket 0.\<close>

definition sample_env :: env where
  "sample_env =
     \<lparr>is_uuid = uuid_shape,
      jwt_verify = (\<lambda>t. if t = ''t1'' then Some ''u1'' else if t = ''t3'' then Some ''u3'' else None),
      send_throws = (\<lambda>s. s = 0),
      assigned_id = ''m1'',
      assigned_at = 10\<rparr>"

text \<open>A text message of \<open>u1\<close> with white space around the text, and an image message
  that carries a text as well.\<close>

definition sample_text_request :: send_request where
  "sample_text_request =
     \<lparr>r_conversationId = conv1, r_type = ''text'', r_text = Some ''  hi '',
      r_mediaUrl = None, r_mediaMeta = None\<rparr>"

definition sample_image_request :: send_request where
  "sample_image_request =
     \<lparr>r_conversationId = conv1, r_type = ''image'', r_text = Some '' caption'',
      r_mediaUrl = Some ''/files/1_a.png'',
      r_mediaMeta = Some (JObj [(''mime'', JStr ''image/png'')])\<rparr>"

text \<open>An image message whose mediaUrl is the empty string, and a message of a type
  the schema does not know.\<close>

definition empty_url_request :: send_request where
  "empty_url_request =
     \<lparr>r_conversationId = conv1, r_type = ''image'', r_text = None,
      r_mediaUrl = Some [], r_mediaMeta = None\<rparr>"

definition sticker_request :: send_request where
  "sticker_request =
     \<lparr>r_conversationId = conv1, r_type = ''sticker'', r_text = Some ''hi'',
      r_mediaUrl = None, r_mediaMeta = None\<rparr>"

text \<open>An image message with a mediaUrl and with \<open>text: null\<close>.\<close>

definition null_text_body :: json where
  "null_text_body =
     JObj [(''conversationId'', JStr conv1), (''type'', JStr ''image''),
           (''text'', JNull), (''mediaUrl'', JStr ''/files/1_a.png'')]"

text \<open>A text message whose text is white space only.\<close>

definition blank_text_request :: send_request where
  "blank_text_request =
     \<lparr>r_conversationId = conv1, r_type = ''text'', r_text = Some ''   '',
      r_mediaUrl = None, r_mediaMeta = None\<rparr>"

text \<open>Handshakes: \<open>u1\<close> with the token in the header, \<open>u3\<close> with the token in the
  query asking for a conversation of others, and one with no token.\<close>

definition member_handshake :: ws_request where
  "member_handshake =
     \<lparr>authorization = Some ''Bearer t1'', query_token = None,
      query_conversationId = Some conv1\<rparr>"

definition outsider_handshake :: ws_request where
  "outsider_handshake =
     \<lparr>authorization = None, query_token = Some ''t3'', query_conversationId = Some conv1\<rparr>"

definition anonymous_handshake :: ws_request where
  "anonymous_handshake =
     \<lparr>authorization = None, query_token = None, query_conversationId = Some conv1\<rparr>"

text \<open>Three stored messages, two of them of the first conversation.\<close>

definition sample_messages :: "message_row list" where
  "sample_messages =
     [\<lparr>m_id = ''m3'', m_conversation_id = conv1, m_sender_id = ''u2'', m_type = Text,
       m_text = Some ''later'', m_media_url = None, m_media_meta = JNull, m_created_at = 20\<rparr>,
      \<lparr>m_id = ''m2'', m_conversation_id = conv2, m_sender_id = ''u3'', m_type = Text,
       m_text = Some ''elsewhere'', m_media_url = None, m_media_meta = JNull, m_created_at = 5\<rparr>,
      \<lparr>m_id = ''m1'', m_conversation_id = conv1, m_sender_id = ''u1'', m_type = Text,
       m_text = Some ''earlier'', m_media_url = None, m_media_meta = JNull, m_created_at = 10\<rparr>]"

section \<open>Properties\<close>

lemma isParticipant_filter:
  "isParticipant st cid u \<longleftrightarrow>
     filter (\<lambda>c. c_id c = cid \<and> (user_a_id c = u \<or> user_b_id c = u)) (conversations st) \<noteq> []"
  by (cases "filter (\<lambda>c. c_id c = cid \<and> (user_a_id c = u \<or> user_b_id c = u)) (conversations st)")
     (simp_all add: isParticipant_def participant_rows_def)

lemma isParticipant_conversations:
  "conversations st' = conversations st \<Longrightarrow> isParticipant st' cid u = isParticipant st cid u"
  by (simp add: isParticipant_filter)

text \<open>
  C6. \<open>isParticipant\<close> returns true exactly when some stored conversation has the given
  identifier and the user is one of its two participants; when no stored conversation
  has the identifier it returns the boolean false. The function has no error branch.
\<close>

theorem isParticipant_iff:
  "(isParticipant st cid u \<longleftrightarrow>
      (\<exists>c \<in> set (conversations st). c_id c = cid \<and> (u = user_a_id c \<or> u = user_b_id c)))
   \<and> ((\<forall>c \<in> set (conversations st). c_id c \<noteq> cid) \<longrightarrow> isParticipant st cid u = False)"
  by (auto simp add: isParticipant_filter filter_empty_conv)

theorem isParticipant_iff_witness:
  "isParticipant sample_state conv1 ''u2''
   \<and> \<not> isParticipant sample_state conv1 ''u3''
   \<and> isParticipant sample_state ''no-such-conversation'' ''u1'' = False"
  using isParticipant_iff [of sample_state conv1 "''u2''"]
        isParticipant_iff [of sample_state conv1 "''u3''"]
        isParticipant_iff [of sample_state "''no-such-conversation''" "''u1''"]
  by (simp add: sample_state_def)

subsection \<open>Helper facts about the send handler\<close>

lemma broadcast_append:
  "broadcast e cs ev w =
     w @ map (\<lambda>c. (socket c, ev, if send_throws e (socket c) then Threw else Sent)) cs"
  by (induction cs arbitrary: w) (simp_all add: socket_send_def)

lemma send_message_parse_fails:
  "safeParse (is_uuid e) body = None \<Longrightarrow> send_message e st u body = (Inl Dados_invalidos, st)"
  by (simp add: send_message_def)

lemma send_message_not_participant:
  "safeParse (is_uuid e) body = Some b \<Longrightarrow> \<not> isParticipant st (b_conversationId b) u \<Longrightarrow>
   send_message e st u body = (Inl Sem_acesso, st)"
  by (simp add: send_message_def)

lemma send_message_accepts:
  assumes "safeParse (is_uuid e) body = Some b"
      and "isParticipant st (b_conversationId b) u"
      and "\<not> (b_type b = Text \<and> text_missing (b_text b))"
      and "\<not> (b_type b \<noteq> Text \<and> \<not> truthy (b_mediaUrl b))"
  shows "send_message e st u body =
           (Inr (assigned_id e),
            st\<lparr>messages := messages st @ [new_row e u b],
               wire := wire st @ map (\<lambda>c. (socket c, message_new (assigned_id e) u b,
                                           if send_throws e (socket c) then Threw else Sent))
                                  (filter (\<lambda>c. conversationId c = b_conversationId b) (wsClients st))\<rparr>)"
  using assms by (auto simp add: send_message_def persist_and_broadcast_def insert_message_def broadcast_append)

lemma send_message_InrD:
  assumes "send_message e st u body = (Inr mid, st')"
  shows "\<exists>b. safeParse (is_uuid e) body = Some b
            \<and> isParticipant st (b_conversationId b) u
            \<and> \<not> (b_type b = Text \<and> text_missing (b_text b))
            \<and> \<not> (b_type b \<noteq> Text \<and> \<not> truthy (b_mediaUrl b))
            \<and> mid = assigned_id e
            \<and> st' = st\<lparr>messages := messages st @ [new_row e u b],
                 wire := wire st @ map (\<lambda>c. (socket c, message_new (assigned_id e) u b,
                                           if send_throws e (socket c) then Threw else Sent))
                                  (filter (\<lambda>c. conversationId c = b_conversationId b) (wsClients st))\<rparr>"
proof (cases "safeParse (is_uuid e) body")
  case None
  with assms show ?thesis by (simp add: send_message_parse_fails)
next
  case (Some b)
  show ?thesis
  proof (cases "isParticipant st (b_conversationId b) u
            \<and> \<not> (b_type b = Text \<and> text_missing (b_text b))
            \<and> \<not> (b_type b \<noteq> Text \<and> \<not> truthy (b_mediaUrl b))")
    case True
    with Some assms send_message_accepts [of e body b st u] show ?thesis by auto
  next
    case False
    with Some assms show ?thesis by (auto simp add: send_message_def split: if_splits)
  qed
qed

lemma matches_row_new: "matches_row (message_new (assigned_id e) u b) (new_row e u b)"
  by (simp add: matches_row_def message_new_def new_row_def)

lemma calls_on_map_filter:
  assumes "distinct (map socket cs)" and "c \<in> set cs"
  shows "calls_on (socket c) (map (\<lambda>c. (socket c, f c)) (filter P cs)) =
           (if P c then [(socket c, f c)] else [])"
  using assms
proof (induction cs)
  case Nil
  then show ?case by simp
next
  case (Cons a cs)
  have none: "calls_on (socket a) (map (\<lambda>c. (socket c, f c)) (filter P cs)) = []"
  proof -
    have "\<forall>x \<in> set cs. socket x \<noteq> socket a"
      using Cons.prems(1) by (metis distinct.simps(2) image_eqI list.simps(9) set_map)
    then show ?thesis by (simp add: calls_on_def filter_empty_conv)
  qed
  show ?case
  proof (cases "c = a")
    case True
    then show ?thesis using none by (simp add: calls_on_def)
  next
    case False
    then have "c \<in> set cs" using Cons.prems(2) by simp
    moreover have "socket a \<noteq> socket c" using Cons.prems(1) \<open>c \<in> set cs\<close> by auto
    ultimately show ?thesis using Cons by (simp add: calls_on_def)
  qed
qed

lemma safeParse_body_of:
  "safeParse uuid (body_of r) =
     (case parse_type (r_type r) of
        None \<Rightarrow> None
      | Some t \<Rightarrow>
          if uuid (r_conversationId r)
          then Some \<lparr>b_conversationId = r_conversationId r, b_type = t, b_text = r_text r,
                     b_mediaUrl = r_mediaUrl r, b_mediaMeta = r_mediaMeta r\<rparr>
          else None)"
  by (cases "r_text r"; cases "r_mediaUrl r"; cases "r_mediaMeta r")
     (simp_all add: safeParse_def body_of_def split: option.splits)

lemma safeParse_text:
  "safeParse uuid body = Some b \<Longrightarrow> b_text b = submitted_text body"
  by (auto simp add: safeParse_def submitted_text_def
      split: json.splits option.splits if_splits elim: optional_string.elims)

lemma parse_type_None: "parse_type s = None \<longleftrightarrow> s \<notin> set [''text'', ''image'', ''video'', ''audio'']"
  by (simp add: parse_type_def)

lemma parse_type_Text: "parse_type s = Some Text \<longleftrightarrow> s = ''text''"
  by (simp add: parse_type_def)

lemma text_missing_trim:
  "text_missing t = (case t of None \<Rightarrow> True | Some s \<Rightarrow> js_trim s = [])"
  by (cases t) (auto simp add: js_trim_def)

lemma not_truthy: "\<not> truthy m \<longleftrightarrow> m = None \<or> m = Some []"
  by (cases m) simp_all

lemma safeParse_not_object:
  "(\<forall>kv. body \<noteq> JObj kv) \<Longrightarrow> safeParse uuid body = None"
  by (cases body) (simp_all add: safeParse_def)

lemma string_field_not_object:
  "(\<forall>kv. body \<noteq> JObj kv) \<Longrightarrow> string_field body k = None"
  by (cases body) (simp_all add: string_field_def)

lemma optional_string_field:
  "optional_string (map_of kv k) =
     (if field_present (JObj kv) k \<longrightarrow> string_field (JObj kv) k \<noteq> None
      then Some (string_field (JObj kv) k) else None)"
proof (cases "map_of kv k")
  case None
  then show ?thesis by (simp add: field_present_def string_field_def)
next
  case (Some v)
  then show ?thesis by (cases v) (simp_all add: field_present_def string_field_def)
qed

lemma safeParse_object:
  "safeParse uuid (JObj kv) =
     (case (string_field (JObj kv) ''conversationId'', string_field (JObj kv) ''type'') of
        (Some cid, Some ty) \<Rightarrow>
          (case parse_type ty of
             None \<Rightarrow> None
           | Some t \<Rightarrow>
               if uuid cid
                  \<and> (field_present (JObj kv) ''text'' \<longrightarrow> string_field (JObj kv) ''text'' \<noteq> None)
                  \<and> (field_present (JObj kv) ''mediaUrl'' \<longrightarrow> string_field (JObj kv) ''mediaUrl'' \<noteq> None)
               then Some \<lparr>b_conversationId = cid, b_type = t,
                          b_text = string_field (JObj kv) ''text'',
                          b_mediaUrl = string_field (JObj kv) ''mediaUrl'',
                          b_mediaMeta = map_of kv ''mediaMeta''\<rparr>
               else None)
      | _ \<Rightarrow> None)"
proof -
  have cid: "string_field (JObj kv) ''conversationId'' =
      (case map_of kv ''conversationId'' of Some (JStr s) \<Rightarrow> Some s | _ \<Rightarrow> None)"
    by (simp add: string_field_def)
  have ty: "string_field (JObj kv) ''type'' =
      (case map_of kv ''type'' of Some (JStr s) \<Rightarrow> Some s | _ \<Rightarrow> None)"
    by (simp add: string_field_def)
  show ?thesis
    unfolding safeParse_def cid ty optional_string_field
    by (auto split: option.splits json.splits)
qed

lemma send_message_verdict:
  "verdict_of (fst (send_message e st u body)) = checks_amended e st u body"
proof (cases "\<exists>kv. body = JObj kv")
  case False
  then have "safeParse (is_uuid e) body = None" "string_field body ''conversationId'' = None"
    by (simp_all add: safeParse_not_object string_field_not_object)
  then show ?thesis
    by (simp add: send_message_parse_fails checks_amended_def)
next
  case True
  then obtain kv where body: "body = JObj kv" by blast
  show ?thesis
  proof (cases "string_field body ''conversationId''")
    case None
    then have "safeParse (is_uuid e) body = None"
      by (simp add: body safeParse_object)
    then show ?thesis using None
      by (simp add: send_message_parse_fails checks_amended_def)
  next
    case (Some cid)
    note cid = this
    show ?thesis
    proof (cases "string_field body ''type''")
      case None
      then have "safeParse (is_uuid e) body = None"
        using cid by (simp add: body safeParse_object)
      then show ?thesis using None cid
        by (simp add: send_message_parse_fails checks_amended_def)
    next
      case (Some ty)
      note ty = this
      show ?thesis
      proof (cases "parse_type ty")
        case None
        then have "safeParse (is_uuid e) body = None"
          using cid ty by (simp add: body safeParse_object)
        moreover have "ty \<notin> set [''text'', ''image'', ''video'', ''audio'']"
          using None parse_type_None [of ty] by simp
        ultimately show ?thesis using cid ty
          by (simp add: send_message_parse_fails checks_amended_def del: set_simps)
      next
        case (Some t)
        then have known: "ty \<in> set [''text'', ''image'', ''video'', ''audio'']"
          using parse_type_None [of ty] by auto
        have ty_text: "t = Text \<longleftrightarrow> ty = ''text''"
          using Some parse_type_Text [of ty] by auto
        show ?thesis
        proof (cases "is_uuid e cid
                  \<and> (field_present body ''text'' \<longrightarrow> string_field body ''text'' \<noteq> None)
                  \<and> (field_present body ''mediaUrl'' \<longrightarrow> string_field body ''mediaUrl'' \<noteq> None)")
          case False
          then have "safeParse (is_uuid e) body = None"
            using cid ty Some by (auto simp add: body safeParse_object)
          then show ?thesis using False cid ty
            by (auto simp add: send_message_parse_fails checks_amended_def simp del: set_simps)
        next
          case True
          then have parse: "safeParse (is_uuid e) body =
              Some \<lparr>b_conversationId = cid, b_type = t, b_text = string_field body ''text'',
                    b_mediaUrl = string_field body ''mediaUrl'',
                    b_mediaMeta = map_of kv ''mediaMeta''\<rparr>"
            using cid ty Some by (simp add: body safeParse_object)
          have schema: "is_uuid e cid \<and> ty \<in> set [''text'', ''image'', ''video'', ''audio'']
                 \<and> (field_present body ''text'' \<longrightarrow> string_field body ''text'' \<noteq> None)
                 \<and> (field_present body ''mediaUrl'' \<longrightarrow> string_field body ''mediaUrl'' \<noteq> None)"
            using True known by simp
          have code: "fst (send_message e st u body) =
              (if \<not> isParticipant st cid u then Inl Sem_acesso
               else if t = Text
               then (if text_missing (string_field body ''text'') then Inl Texto_obrigatorio
                     else Inr (assigned_id e))
               else (if \<not> truthy (string_field body ''mediaUrl'') then Inl MediaUrl_obrigatorio
                     else Inr (assigned_id e)))"
            by (simp add: send_message_def parse persist_and_broadcast_def insert_message_def)
          have spec: "checks_amended e st u body =
              (if \<not> isParticipant st cid u then Forbidden
               else if ty = ''text''
                       \<and> (case string_field body ''text'' of None \<Rightarrow> True | Some t \<Rightarrow> js_trim t = [])
               then InvalidInput
               else if ty \<noteq> ''text''
                       \<and> (string_field body ''mediaUrl'' = None
                            \<or> string_field body ''mediaUrl'' = Some [])
               then InvalidInput
               else Accepted)"
            unfolding checks_amended_def cid ty using schema by simp
          show ?thesis
            unfolding code spec using ty_text
            by (simp add: text_missing_trim not_truthy)
        qed
      qed
    qed
  qed
qed

subsection \<open>Helper facts about the registry, the runs and the history\<close>

lemma indexOf_lower: "- 1 \<le> indexOf xs x"
  by (induction xs) (simp_all add: Let_def)

lemma indexOf_nonneg: "0 \<le> indexOf xs x \<longleftrightarrow> x \<in> set xs"
  by (induction xs) (auto simp add: Let_def)

lemma splice1_indexOf: "x \<in> set xs \<Longrightarrow> splice1 xs (nat (indexOf xs x)) = remove1 x xs"
proof (induction xs)
  case Nil
  then show ?case by simp
next
  case (Cons y ys)
  show ?case
  proof (cases "y = x")
    case True
    then show ?thesis by (simp add: splice1_def)
  next
    case False
    then have mem: "x \<in> set ys" using Cons.prems by simp
    then have pos: "0 \<le> indexOf ys x" by (simp add: indexOf_nonneg)
    then have "nat (indexOf ys x + 1) = Suc (nat (indexOf ys x))" by simp
    then have "splice1 (y # ys) (nat (indexOf (y # ys) x)) = y # splice1 ys (nat (indexOf ys x))"
      using False pos by (simp add: splice1_def Let_def)
    then show ?thesis using Cons.IH [OF mem] False by simp
  qed
qed

lemma on_close_remove1: "on_close st c = st\<lparr>wsClients := remove1 c (wsClients st)\<rparr>"
proof (cases "c \<in> set (wsClients st)")
  case True
  then show ?thesis
    by (simp add: on_close_def Let_def indexOf_nonneg splice1_indexOf)
next
  case False
  then have "remove1 c (wsClients st) = wsClients st" by (simp add: remove1_idem)
  then show ?thesis using False
    by (simp add: on_close_def Let_def indexOf_nonneg)
qed

lemma on_close_twice:
  "distinct (wsClients st) \<Longrightarrow> on_close (on_close st c) c = on_close st c"
  by (simp add: on_close_remove1 remove1_idem)

lemma handshake_token_nonempty: "handshake_token req \<noteq> Some []"
  by (cases "tokenFromHeader req"; cases "query_token req")
     (auto simp add: handshake_token_def tokenFromQuery_def js_or_def)

lemma ws_handler_passes:
  assumes "handshake_passes e st req u cid"
  shows "ws_handler e st sock req =
           st\<lparr>wsClients := wsClients st @ [\<lparr>uid = u, conversationId = cid, socket = sock\<rparr>]\<rparr>"
proof -
  from assms obtain token where
    tok: "handshake_token req = Some token" and ver: "jwt_verify e token = Some u"
    by (auto simp add: handshake_passes_def split: option.splits)
  have ne: "token \<noteq> []" using tok handshake_token_nonempty [of req] by auto
  from assms have q: "query_conversationId req = Some cid" "cid \<noteq> []" "isParticipant st cid u"
    by (simp_all add: handshake_passes_def)
  show ?thesis
    using tok ver ne q by (simp add: ws_handler_def js_or_def)
qed

lemma ws_handler_fails:
  assumes "\<forall>u cid. \<not> handshake_passes e st req u cid"
  shows "ws_handler e st sock req = st\<lparr>closed := closed st @ [sock]\<rparr>"
proof (cases "handshake_token req")
  case None
  then show ?thesis by (simp add: ws_handler_def reject_socket_def)
next
  case (Some token)
  show ?thesis
  proof (cases "jwt_verify e token")
    case None
    then show ?thesis using Some by (simp add: ws_handler_def reject_socket_def)
  next
    case (Some u)
    note ver = this
    show ?thesis
    proof (cases "query_conversationId req")
      case None
      then show ?thesis
        using \<open>handshake_token req = Some token\<close> ver
        by (simp add: ws_handler_def reject_socket_def js_or_def)
    next
      case (Some cid)
      then have "cid = [] \<or> \<not> isParticipant st cid u"
        using assms \<open>handshake_token req = Some token\<close> ver
        by (auto simp add: handshake_passes_def)
      then show ?thesis
        using Some \<open>handshake_token req = Some token\<close> ver
        by (auto simp add: ws_handler_def reject_socket_def js_or_def)
    qed
  qed
qed

lemma ws_handler_cases:
  "ws_handler e st sock req = st\<lparr>closed := closed st @ [sock]\<rparr>
   \<or> (\<exists>u cid. isParticipant st cid u
         \<and> ws_handler e st sock req =
             st\<lparr>wsClients := wsClients st @ [\<lparr>uid = u, conversationId = cid, socket = sock\<rparr>]\<rparr>)"
proof (cases "\<exists>u cid. handshake_passes e st req u cid")
  case True
  then obtain u cid where h: "handshake_passes e st req u cid" by blast
  then have "isParticipant st cid u" by (simp add: handshake_passes_def)
  with ws_handler_passes [OF h] show ?thesis by blast
next
  case False
  then show ?thesis using ws_handler_fails [of e st req sock] by simp
qed

lemma send_message_keeps:
  "conversations (snd (send_message e st u body)) = conversations st"
  "wsClients (snd (send_message e st u body)) = wsClients st"
  by (auto simp add: send_message_def persist_and_broadcast_def insert_message_def split: option.splits)

lemma reachable_participants:
  "reachable st \<Longrightarrow> \<forall>c \<in> set (wsClients st). isParticipant st (conversationId c) (uid c)"
proof (induction rule: reachable.induct)
  case (start st)
  then show ?case by simp
next
  case (connect st sock e req)
  from ws_handler_cases [of e st sock req] show ?case
  proof
    assume "ws_handler e st sock req = st\<lparr>closed := closed st @ [sock]\<rparr>"
    then show ?thesis using connect.IH by (simp add: isParticipant_filter)
  next
    assume "\<exists>u cid. isParticipant st cid u
         \<and> ws_handler e st sock req =
             st\<lparr>wsClients := wsClients st @ [\<lparr>uid = u, conversationId = cid, socket = sock\<rparr>]\<rparr>"
    then show ?thesis using connect.IH by (auto simp add: isParticipant_filter)
  qed
next
  case (disconnect st c)
  then show ?case
    by (auto simp add: on_close_remove1 isParticipant_filter dest: notin_set_remove1)
next
  case (post st e u body)
  then show ?case
    using isParticipant_conversations [OF send_message_keeps(1) [of e st u body]]
    by (simp add: send_message_keeps(2))
qed

lemma distinct_map_remove1: "distinct (map f xs) \<Longrightarrow> distinct (map f (remove1 x xs))"
proof (induction xs)
  case Nil
  then show ?case by simp
next
  case (Cons y ys)
  have "f ` set (remove1 x ys) \<subseteq> f ` set ys"
    using set_remove1_subset [of x ys] by blast
  then show ?case using Cons by auto
qed

lemma reachable_distinct_sockets:
  "reachable st \<Longrightarrow> distinct (map socket (wsClients st))"
proof (induction rule: reachable.induct)
  case (start st)
  then show ?case by simp
next
  case (connect st sock e req)
  from ws_handler_cases [of e st sock req] show ?case
    using connect.IH connect.hyps(2) by auto
next
  case (disconnect st c)
  then show ?case by (simp add: on_close_remove1 distinct_map_remove1)
next
  case (post st e u body)
  then show ?case by (simp add: send_message_keeps(2))
qed

lemma reachable_distinct: "reachable st \<Longrightarrow> distinct (wsClients st)"
  using reachable_distinct_sockets [of st] by (simp add: distinct_map)

lemma history_rows_props:
  "length (history_rows st cid) \<le> 500"
  "sorted (map m_created_at (history_rows st cid))"
  "\<forall>m \<in> set (history_rows st cid). m \<in> set (messages st) \<and> m_conversation_id m = cid"
proof -
  show "length (history_rows st cid) \<le> 500" by (simp add: history_rows_def)
  show "sorted (map m_created_at (history_rows st cid))"
    by (simp add: history_rows_def take_map [symmetric] sorted_wrt_take)
  show "\<forall>m \<in> set (history_rows st cid). m \<in> set (messages st) \<and> m_conversation_id m = cid"
    by (auto simp add: history_rows_def dest: in_set_takeD)
qed

subsection \<open>The sample data, evaluated\<close>

lemma sample_uuid: "uuid_shape conv1"
  by (simp add: uuid_shape_def is_hex_def)

lemma sample_participants:
  "isParticipant sample_state conv1 ''u1''" "\<not> isParticipant sample_state conv1 ''u3''"
  by (simp_all add: isParticipant_def participant_rows_def sample_state_def)

lemma sample_text_send:
  "send_message sample_env sample_state ''u1'' (body_of sample_text_request) =
     (Inr ''m1'',
      sample_state\<lparr>messages :=
          [\<lparr>m_id = ''m1'', m_conversation_id = conv1, m_sender_id = ''u1'', m_type = Text,
            m_text = Some ''  hi '', m_media_url = None, m_media_meta = JNull,
            m_created_at = 10\<rparr>],
        wire :=
          [(0, \<lparr>e_event = ''message:new'', e_id = ''m1'', e_conversationId = conv1,
                e_senderId = ''u1'', e_type = Text, e_text = Some ''  hi '', e_mediaUrl = None,
                e_mediaMeta = JNull\<rparr>, Threw),
           (1, \<lparr>e_event = ''message:new'', e_id = ''m1'', e_conversationId = conv1,
                e_senderId = ''u1'', e_type = Text, e_text = Some ''  hi '', e_mediaUrl = None,
                e_mediaMeta = JNull\<rparr>, Sent)]\<rparr>)"
proof -
  have parse: "safeParse (is_uuid sample_env) (body_of sample_text_request) =
      Some \<lparr>b_conversationId = conv1, b_type = Text, b_text = Some ''  hi '',
            b_mediaUrl = None, b_mediaMeta = None\<rparr>"
    using sample_uuid
    by (simp add: safeParse_body_of sample_text_request_def parse_type_def sample_env_def)
  have trim: "js_trim ''  hi '' = ''hi''"
    by (simp add: js_trim_def is_ws_def)
  show ?thesis
    using send_message_accepts [OF parse, of sample_state "''u1''"] sample_participants(1) trim
    by (simp add: new_row_def message_new_def sample_env_def) (simp add: sample_state_def)
qed

lemma empty_url_send:
  "send_message sample_env sample_state ''u1'' (body_of empty_url_request) =
     (Inl MediaUrl_obrigatorio, sample_state)"
proof -
  have "safeParse (is_uuid sample_env) (body_of empty_url_request) =
      Some \<lparr>b_conversationId = conv1, b_type = Image, b_text = None,
            b_mediaUrl = Some [], b_mediaMeta = None\<rparr>"
    using sample_uuid
    by (simp add: safeParse_body_of empty_url_request_def parse_type_def sample_env_def)
  then show ?thesis
    using sample_participants(1) by (simp add: send_message_def)
qed

lemma null_text_send:
  "send_message sample_env sample_state ''u1'' null_text_body = (Inl Dados_invalidos, sample_state)"
  by (simp add: send_message_def safeParse_def null_text_body_def parse_type_def)

lemma sticker_parse:
  "safeParse (is_uuid sample_env) (body_of sticker_request) = None"
  by (simp add: safeParse_body_of sticker_request_def parse_type_def)

lemma blank_text_parse:
  "safeParse (is_uuid sample_env) (body_of blank_text_request) =
     Some \<lparr>b_conversationId = conv1, b_type = Text, b_text = Some ''   '',
           b_mediaUrl = None, b_mediaMeta = None\<rparr>"
  using sample_uuid
  by (simp add: safeParse_body_of blank_text_request_def parse_type_def sample_env_def)

lemma sample_text_accepted:
  assumes "is_uuid e = uuid_shape" and "assigned_id e = ''m1''"
  shows "send_message e sample_state ''u1'' (body_of sample_text_request) =
           (Inr ''m1'', snd (send_message e sample_state ''u1'' (body_of sample_text_request)))"
proof -
  have parse: "safeParse (is_uuid e) (body_of sample_text_request) =
      Some \<lparr>b_conversationId = conv1, b_type = Text, b_text = Some ''  hi '',
            b_mediaUrl = None, b_mediaMeta = None\<rparr>"
    using sample_uuid assms(1)
    by (simp add: safeParse_body_of sample_text_request_def parse_type_def)
  have trim: "js_trim ''  hi '' = ''hi''"
    by (simp add: js_trim_def is_ws_def)
  show ?thesis
    using send_message_accepts [OF parse, of sample_state "''u1''"] sample_participants(1) trim assms(2)
    by simp
qed

lemma sample_image_accepted:
  "send_message sample_env sample_state ''u1'' (body_of sample_image_request) =
     (Inr ''m1'', snd (send_message sample_env sample_state ''u1'' (body_of sample_image_request)))"
proof -
  have parse: "safeParse (is_uuid sample_env) (body_of sample_image_request) =
      Some \<lparr>b_conversationId = conv1, b_type = Image, b_text = Some '' caption'',
            b_mediaUrl = Some ''/files/1_a.png'',
            b_mediaMeta = Some (JObj [(''mime'', JStr ''image/png'')])\<rparr>"
    using sample_uuid
    by (simp add: safeParse_body_of sample_image_request_def parse_type_def sample_env_def)
  show ?thesis
    using send_message_accepts [OF parse, of sample_state "''u1''"] sample_participants(1)
    by (simp add: sample_env_def)
qed

lemma sample_submitted_texts:
  "submitted_text (body_of sample_text_request) = Some ''  hi ''"
  "submitted_text (body_of sample_image_request) = Some '' caption''"
  by (simp_all add: submitted_text_def body_of_def sample_text_request_def sample_image_request_def)

lemma sample_member_passes:
  "handshake_passes sample_env (sample_state\<lparr>wsClients := ws\<rparr>) member_handshake ''u1'' conv1"
  by (simp add: handshake_passes_def handshake_token_def tokenFromHeader_def tokenFromQuery_def
      js_or_def member_handshake_def sample_env_def isParticipant_filter sample_state_def)

lemma sample_outsider_fails:
  "\<forall>u cid. \<not> handshake_passes sample_env sample_state outsider_handshake u cid"
  using sample_participants(2)
  by (auto simp add: handshake_passes_def handshake_token_def tokenFromHeader_def
      tokenFromQuery_def js_or_def outsider_handshake_def sample_env_def)

lemma sample_anonymous_fails:
  "\<forall>u cid. \<not> handshake_passes sample_env sample_state anonymous_handshake u cid"
  by (simp add: handshake_passes_def handshake_token_def tokenFromHeader_def
      tokenFromQuery_def js_or_def anonymous_handshake_def)

lemma sample_run:
  "reachable (ws_handler sample_env (sample_state\<lparr>wsClients := []\<rparr>) 0 member_handshake)"
  by (rule reachable.connect, rule reachable.start) simp_all

lemma sample_run_clients:
  "wsClients (ws_handler sample_env (sample_state\<lparr>wsClients := []\<rparr>) 0 member_handshake) =
     [\<lparr>uid = ''u1'', conversationId = conv1, socket = 0\<rparr>]"
  using ws_handler_passes [OF sample_member_passes [of "[]"], of 0] by simp

lemma sample_history:
  "get_messages (sample_state\<lparr>messages := sample_messages\<rparr>) ''u1'' conv1 =
     Inr [\<lparr>h_id = ''m1'', h_senderId = ''u1'', h_type = Text, h_text = Some ''earlier'',
           h_mediaUrl = None, h_mediaMeta = JNull, h_createdAt = 10\<rparr>,
          \<lparr>h_id = ''m3'', h_senderId = ''u2'', h_type = Text, h_text = Some ''later'',
           h_mediaUrl = None, h_mediaMeta = JNull, h_createdAt = 20\<rparr>]"
proof -
  have "isParticipant (sample_state\<lparr>messages := sample_messages\<rparr>) conv1 ''u1''"
    using sample_participants(1) by (simp add: isParticipant_filter)
  then show ?thesis
    by (simp add: get_messages_def history_rows_def sample_messages_def select_columns_def)
qed

subsection \<open>Broadcast\<close>

text \<open>
  C1. When a send request is accepted (a row \<open>row\<close> is persisted and its id returned),
  and the registry holds each socket once, the broadcast calls \<open>send\<close> exactly once on
  the socket of every registered connection whose conversationId is the row's, with an
  event whose fields are the row's, and makes no call on the socket of a connection
  registered with another conversationId. Every state of a run holds each socket once
  (\<open>reachable_distinct_sockets\<close>).
\<close>

theorem broadcast_exactly_once:
  assumes "send_message e st u body = (Inr mid, st')"
      and "distinct (map socket (wsClients st))"
  shows "\<exists>row new. messages st' = messages st @ [row] \<and> m_id row = mid
           \<and> wire st' = wire st @ new
           \<and> (\<forall>c \<in> set (wsClients st).
                 if conversationId c = m_conversation_id row
                 then (\<exists>ev out. calls_on (socket c) new = [(socket c, ev, out)] \<and> matches_row ev row)
                 else calls_on (socket c) new = [])"
proof -
  from send_message_InrD [OF assms(1)] obtain b where
    mid: "mid = assigned_id e" and
    st': "st' = st\<lparr>messages := messages st @ [new_row e u b],
                 wire := wire st @ map (\<lambda>c. (socket c, message_new (assigned_id e) u b,
                                           if send_throws e (socket c) then Threw else Sent))
                                  (filter (\<lambda>c. conversationId c = b_conversationId b) (wsClients st))\<rparr>"
    by blast
  let ?new = "map (\<lambda>c. (socket c, message_new (assigned_id e) u b,
                         if send_throws e (socket c) then Threw else Sent))
                (filter (\<lambda>c. conversationId c = b_conversationId b) (wsClients st))"
  have each: "\<forall>c \<in> set (wsClients st).
                 if conversationId c = m_conversation_id (new_row e u b)
                 then (\<exists>ev out. calls_on (socket c) ?new = [(socket c, ev, out)]
                          \<and> matches_row ev (new_row e u b))
                 else calls_on (socket c) ?new = []"
  proof
    fix c assume c: "c \<in> set (wsClients st)"
    have conv: "m_conversation_id (new_row e u b) = b_conversationId b"
      by (simp add: new_row_def)
    show "if conversationId c = m_conversation_id (new_row e u b)
          then (\<exists>ev out. calls_on (socket c) ?new = [(socket c, ev, out)]
                   \<and> matches_row ev (new_row e u b))
          else calls_on (socket c) ?new = []"
      using calls_on_map_filter [OF assms(2) c,
          of "\<lambda>c. (message_new (assigned_id e) u b, if send_throws e (socket c) then Threw else Sent)"
             "\<lambda>c. conversationId c = b_conversationId b"]
        matches_row_new [of e u b]
      by (auto simp add: conv)
  qed
  have "messages st' = messages st @ [new_row e u b]" using st' by simp
  moreover have "m_id (new_row e u b) = mid" using mid by (simp add: new_row_def)
  moreover have "wire st' = wire st @ ?new" using st' by simp
  ultimately show ?thesis using each by blast
qed

theorem broadcast_exactly_once_witness:
  "distinct (map socket (wsClients sample_state))
   \<and> (\<exists>row new.
        messages (snd (send_message sample_env sample_state ''u1'' (body_of sample_text_request)))
          = messages sample_state @ [row]
        \<and> m_id row = ''m1''
        \<and> wire (snd (send_message sample_env sample_state ''u1'' (body_of sample_text_request)))
          = wire sample_state @ new
        \<and> (\<forall>c \<in> set (wsClients sample_state).
              if conversationId c = m_conversation_id row
              then (\<exists>ev out. calls_on (socket c) new = [(socket c, ev, out)] \<and> matches_row ev row)
              else calls_on (socket c) new = []))"
proof -
  have d: "distinct (map socket (wsClients sample_state))"
    by (simp add: sample_state_def)
  have s: "send_message sample_env sample_state ''u1'' (body_of sample_text_request) =
      (Inr ''m1'', snd (send_message sample_env sample_state ''u1'' (body_of sample_text_request)))"
    by (simp add: sample_text_send)
  from broadcast_exactly_once [OF s d] d show ?thesis by blast
qed

subsection \<open>Validation\<close>

text \<open>
  C3 (as amended). For every send request, whatever its body, the checks run in the
  order (1) the body matches the schema: a well-formed conversationId, a recognized
  type, and a text and a mediaUrl that are strings when they are present, (2) the
  sender is a participant, (3) for type text a text that is non-empty after trimming,
  (4) for the other types a mediaUrl that is present and not the empty string; the
  first failing check decides the reply, and a request that passes all four is
  accepted. A body the schema refuses yields InvalidInput (400) whoever the sender is,
  and a sender who is not a participant yields Forbidden (403) whatever the content.
\<close>

theorem validation_order:
  "verdict_of (fst (send_message e st u body)) = checks_amended e st u body
   \<and> (safeParse (is_uuid e) body = None \<longrightarrow> fst (send_message e st u body) = Inl Dados_invalidos)
   \<and> (safeParse (is_uuid e) body = Some b \<and> \<not> isParticipant st (b_conversationId b) u \<longrightarrow>
        fst (send_message e st u body) = Inl Sem_acesso)"
  by (simp add: send_message_verdict send_message_parse_fails send_message_not_participant)

theorem validation_order_counterexample:
  "checks_as_specified sample_env sample_state ''u1'' (body_of empty_url_request) = Accepted
   \<and> verdict_of (fst (send_message sample_env sample_state ''u1'' (body_of empty_url_request)))
       = InvalidInput
   \<and> checks_as_specified sample_env sample_state ''u1'' null_text_body = Accepted
   \<and> verdict_of (fst (send_message sample_env sample_state ''u1'' null_text_body)) = InvalidInput"
proof -
  have e: "is_uuid sample_env conv1" using sample_uuid by (simp add: sample_env_def)
  have a: "checks_as_specified sample_env sample_state ''u1'' (body_of empty_url_request) = Accepted"
    using e sample_participants(1)
    by (simp add: checks_as_specified_def string_field_def field_present_def body_of_def
        empty_url_request_def)
  have b: "checks_as_specified sample_env sample_state ''u1'' null_text_body = Accepted"
    using e sample_participants(1)
    by (simp add: checks_as_specified_def string_field_def field_present_def null_text_body_def)
  show ?thesis using a b by (simp add: empty_url_send null_text_send)
qed

theorem validation_order_witness:
  "verdict_of (fst (send_message sample_env sample_state ''u1'' (body_of empty_url_request)))
     = InvalidInput
   \<and> verdict_of (fst (send_message sample_env sample_state ''u1'' null_text_body)) = InvalidInput
   \<and> verdict_of (fst (send_message sample_env sample_state ''u1'' (body_of sample_image_request)))
     = Accepted
   \<and> safeParse (is_uuid sample_env) (body_of sticker_request) = None
   \<and> \<not> isParticipant sample_state conv1 ''u3''
   \<and> fst (send_message sample_env sample_state ''u3'' (body_of sticker_request))
       = Inl Dados_invalidos
   \<and> text_missing (Some ''   '')
   \<and> fst (send_message sample_env sample_state ''u3'' (body_of blank_text_request))
       = Inl Sem_acesso"
proof -
  have e: "is_uuid sample_env conv1" using sample_uuid by (simp add: sample_env_def)
  have a: "checks_amended sample_env sample_state ''u1'' (body_of empty_url_request) = InvalidInput"
    using e sample_participants(1)
    by (simp add: checks_amended_def string_field_def field_present_def body_of_def
        empty_url_request_def)
  have n: "checks_amended sample_env sample_state ''u1'' null_text_body = InvalidInput"
    using e sample_participants(1)
    by (simp add: checks_amended_def string_field_def field_present_def null_text_body_def)
  have i: "checks_amended sample_env sample_state ''u1'' (body_of sample_image_request) = Accepted"
    using e sample_participants(1)
    by (simp add: checks_amended_def string_field_def field_present_def body_of_def
        sample_image_request_def)
  have b: "text_missing (Some ''   '')"
    by (simp add: js_trim_def is_ws_def)
  show ?thesis
    using validation_order [where e = sample_env and st = sample_state and u = "''u1''"
            and body = "body_of empty_url_request"
            and b = "\<lparr>b_conversationId = conv1, b_type = Text, b_text = Some ''   '',
              b_mediaUrl = None, b_mediaMeta = None\<rparr>"]
          validation_order [where e = sample_env and st = sample_state and u = "''u1''"
            and body = null_text_body
            and b = "\<lparr>b_conversationId = conv1, b_type = Text, b_text = Some ''   '',
              b_mediaUrl = None, b_mediaMeta = None\<rparr>"]
          validation_order [where e = sample_env and st = sample_state and u = "''u1''"
            and body = "body_of sample_image_request"
            and b = "\<lparr>b_conversationId = conv1, b_type = Text, b_text = Some ''   '',
              b_mediaUrl = None, b_mediaMeta = None\<rparr>"]
          validation_order [where e = sample_env and st = sample_state and u = "''u3''"
            and body = "body_of sticker_request"
            and b = "\<lparr>b_conversationId = conv1, b_type = Text, b_text = Some ''   '',
              b_mediaUrl = None, b_mediaMeta = None\<rparr>"]
          validation_order [where e = sample_env and st = sample_state and u = "''u3''"
            and body = "body_of blank_text_request"
            and b = "\<lparr>b_conversationId = conv1, b_type = Text, b_text = Some ''   '',
              b_mediaUrl = None, b_mediaMeta = None\<rparr>"]
          a n i b sticker_parse blank_text_parse sample_participants(2)
    by simp
qed

text \<open>
  C2 (as amended). For every send request whose body the schema accepts and whose
  authenticated sender is not a participant of the target conversation, the handler
  replies Forbidden (403) and returns the state as it was: no row is persisted and no
  \<open>send\<close> is called. A body the schema refuses is answered InvalidInput (400) before
  the participant check, with the state unchanged as well.
\<close>

theorem nonparticipant_send_rejected:
  "(safeParse (is_uuid e) body = Some b \<and> \<not> isParticipant st (b_conversationId b) u \<longrightarrow>
      send_message e st u body = (Inl Sem_acesso, st) \<and> status_code Sem_acesso = 403)
   \<and> (safeParse (is_uuid e) body = None \<longrightarrow>
      send_message e st u body = (Inl Dados_invalidos, st) \<and> status_code Dados_invalidos = 400)"
  by (simp add: send_message_parse_fails send_message_not_participant)

theorem nonparticipant_send_rejected_witness:
  "\<not> isParticipant sample_state conv1 ''u3''
   \<and> send_message sample_env sample_state ''u3'' (body_of sample_text_request)
       = (Inl Sem_acesso, sample_state)
   \<and> send_message sample_env sample_state ''u3'' (body_of sticker_request)
       = (Inl Dados_invalidos, sample_state)"
proof -
  have p: "safeParse (is_uuid sample_env) (body_of sample_text_request) =
      Some \<lparr>b_conversationId = conv1, b_type = Text, b_text = Some ''  hi '',
            b_mediaUrl = None, b_mediaMeta = None\<rparr>"
    using sample_uuid
    by (simp add: safeParse_body_of sample_text_request_def parse_type_def sample_env_def)
  show ?thesis
    using nonparticipant_send_rejected [of sample_env "body_of sample_text_request"
            "\<lparr>b_conversationId = conv1, b_type = Text, b_text = Some ''  hi '',
              b_mediaUrl = None, b_mediaMeta = None\<rparr>" sample_state "''u3''"]
          nonparticipant_send_rejected [of sample_env "body_of sticker_request" _
            sample_state "''u3''"]
          p sticker_parse sample_participants(2)
    by simp
qed

theorem nonparticipant_send_counterexample:
  "\<not> isParticipant sample_state (r_conversationId sticker_request) ''u3''
   \<and> fst (send_message sample_env sample_state ''u3'' (body_of sticker_request))
       = Inl Dados_invalidos
   \<and> status_code Dados_invalidos = 400
   \<and> verdict_of (fst (send_message sample_env sample_state ''u3'' (body_of sticker_request)))
       \<noteq> Forbidden"
  using sample_participants(2) sticker_parse
  by (simp add: send_message_parse_fails sticker_request_def)

subsection \<open>Failing sends and the text carried\<close>

text \<open>
  C5. Take a send request that is accepted with id \<open>mid\<close> when no \<open>send\<close> throws.
  Whatever sockets throw, the handler returns the same success reply with \<open>mid\<close>, the
  final state differs only in the record of \<open>send\<close> calls (the persisted row stays),
  and every registered connection of the row's conversation whose \<open>send\<close> does not
  throw is sent the event.
\<close>

theorem send_failures_are_swallowed:
  assumes "send_message (e\<lparr>send_throws := \<lambda>s. False\<rparr>) st u body = (Inr mid, st0)"
  shows "\<exists>row new.
           send_message e st u body = (Inr mid, st0\<lparr>wire := wire st @ new\<rparr>)
           \<and> messages st0 = messages st @ [row] \<and> m_id row = mid
           \<and> (\<forall>c \<in> set (wsClients st).
                 conversationId c = m_conversation_id row \<and> \<not> send_throws e (socket c) \<longrightarrow>
                 (\<exists>ev. matches_row ev row \<and> (socket c, ev, Sent) \<in> set new))"
proof -
  let ?e0 = "e\<lparr>send_throws := \<lambda>s. False\<rparr>"
  from send_message_InrD [OF assms] obtain b where
    parse: "safeParse (is_uuid e) body = Some b" and
    part: "isParticipant st (b_conversationId b) u" and
    ok1: "\<not> (b_type b = Text \<and> text_missing (b_text b))" and
    ok2: "\<not> (b_type b \<noteq> Text \<and> \<not> truthy (b_mediaUrl b))" and
    mid: "mid = assigned_id e" and
    st0: "st0 = st\<lparr>messages := messages st @ [new_row ?e0 u b],
                 wire := wire st @ map (\<lambda>c. (socket c, message_new (assigned_id ?e0) u b,
                                           if send_throws ?e0 (socket c) then Threw else Sent))
                                  (filter (\<lambda>c. conversationId c = b_conversationId b) (wsClients st))\<rparr>"
    by auto
  let ?row = "new_row e u b"
  let ?new = "map (\<lambda>c. (socket c, message_new (assigned_id e) u b,
                         if send_throws e (socket c) then Threw else Sent))
                (filter (\<lambda>c. conversationId c = b_conversationId b) (wsClients st))"
  have row: "new_row ?e0 u b = ?row" by (simp add: new_row_def)
  have "send_message e st u body = (Inr mid, st0\<lparr>wire := wire st @ ?new\<rparr>)"
    using send_message_accepts [OF parse part ok1 ok2] mid st0 row by simp
  moreover have "messages st0 = messages st @ [?row]" using st0 row by simp
  moreover have "m_id ?row = mid" using mid by (simp add: new_row_def)
  moreover have "\<forall>c \<in> set (wsClients st).
                 conversationId c = m_conversation_id ?row \<and> \<not> send_throws e (socket c) \<longrightarrow>
                 (\<exists>ev. matches_row ev ?row \<and> (socket c, ev, Sent) \<in> set ?new)"
  proof (intro ballI impI)
    fix c assume c: "c \<in> set (wsClients st)"
      and h: "conversationId c = m_conversation_id ?row \<and> \<not> send_throws e (socket c)"
    then have "conversationId c = b_conversationId b" by (simp add: new_row_def)
    with c h have "(socket c, message_new (assigned_id e) u b, Sent) \<in> set ?new"
      by (force simp add: image_iff)
    with matches_row_new [of e u b]
    show "\<exists>ev. matches_row ev ?row \<and> (socket c, ev, Sent) \<in> set ?new" by blast
  qed
  ultimately show ?thesis by blast
qed

theorem send_failures_are_swallowed_witness:
  "send_throws sample_env 0 \<and> \<not> send_throws sample_env 1
   \<and> (\<exists>row new.
         send_message sample_env sample_state ''u1'' (body_of sample_text_request) =
           (Inr ''m1'',
            (snd (send_message (sample_env\<lparr>send_throws := \<lambda>s. False\<rparr>) sample_state ''u1''
                    (body_of sample_text_request)))\<lparr>wire := wire sample_state @ new\<rparr>)
         \<and> messages (snd (send_message (sample_env\<lparr>send_throws := \<lambda>s. False\<rparr>) sample_state ''u1''
                    (body_of sample_text_request))) = messages sample_state @ [row]
         \<and> m_id row = ''m1''
         \<and> (\<forall>c \<in> set (wsClients sample_state).
               conversationId c = m_conversation_id row \<and> \<not> send_throws sample_env (socket c) \<longrightarrow>
               (\<exists>ev. matches_row ev row \<and> (socket c, ev, Sent) \<in> set new)))"
proof -
  have s: "send_message (sample_env\<lparr>send_throws := \<lambda>s. False\<rparr>) sample_state ''u1''
             (body_of sample_text_request) =
           (Inr ''m1'', snd (send_message (sample_env\<lparr>send_throws := \<lambda>s. False\<rparr>) sample_state ''u1''
             (body_of sample_text_request)))"
    by (rule sample_text_accepted) (simp_all add: sample_env_def)
  have t: "send_throws sample_env 0 \<and> \<not> send_throws sample_env 1"
    by (simp add: sample_env_def)
  from send_failures_are_swallowed [OF s] t show ?thesis by blast
qed

text \<open>
  C10. For every accepted send request the text of the persisted row is the text
  string the body submitted (\<open>None\<close> when it has none), and every registered
  connection of the row's conversation is handed, in this request, an event whose text
  is that same string; no event of the request carries another text. Trimming happens
  in the check only: the sample text \<open>"  hi "\<close> keeps its white space in the row and
  in the events of both connections, and the text of an image message is kept as well.
\<close>

theorem text_kept_as_submitted:
  assumes "send_message e st u body = (Inr mid, st')"
  shows "\<exists>row new. messages st' = messages st @ [row] \<and> wire st' = wire st @ new
           \<and> m_text row = submitted_text body
           \<and> (\<forall>x \<in> set new. e_text (fst (snd x)) = submitted_text body)
           \<and> (\<forall>c \<in> set (wsClients st). conversationId c = m_conversation_id row \<longrightarrow>
                 (\<exists>ev. e_text ev = submitted_text body
                    \<and> (socket c, ev, if send_throws e (socket c) then Threw else Sent) \<in> set new))"
proof -
  from send_message_InrD [OF assms] obtain b where
    parse: "safeParse (is_uuid e) body = Some b" and
    st': "st' = st\<lparr>messages := messages st @ [new_row e u b],
                 wire := wire st @ map (\<lambda>c. (socket c, message_new (assigned_id e) u b,
                                           if send_throws e (socket c) then Threw else Sent))
                                  (filter (\<lambda>c. conversationId c = b_conversationId b) (wsClients st))\<rparr>"
    by blast
  let ?new = "map (\<lambda>c. (socket c, message_new (assigned_id e) u b,
                         if send_throws e (socket c) then Threw else Sent))
                (filter (\<lambda>c. conversationId c = b_conversationId b) (wsClients st))"
  have t: "b_text b = submitted_text body" using parse by (rule safeParse_text)
  have ev: "e_text (message_new (assigned_id e) u b) = submitted_text body"
    using t by (simp add: message_new_def)
  have "messages st' = messages st @ [new_row e u b]" using st' by simp
  moreover have "m_text (new_row e u b) = submitted_text body" using t by (simp add: new_row_def)
  moreover have "wire st' = wire st @ ?new" using st' by simp
  moreover have "\<forall>x \<in> set ?new. e_text (fst (snd x)) = submitted_text body"
    using ev by auto
  moreover have "\<forall>c \<in> set (wsClients st). conversationId c = m_conversation_id (new_row e u b) \<longrightarrow>
       (\<exists>ev. e_text ev = submitted_text body
          \<and> (socket c, ev, if send_throws e (socket c) then Threw else Sent) \<in> set ?new)"
  proof (intro ballI impI)
    fix c assume c: "c \<in> set (wsClients st)"
      and "conversationId c = m_conversation_id (new_row e u b)"
    then have "conversationId c = b_conversationId b" by (simp add: new_row_def)
    with c have "(socket c, message_new (assigned_id e) u b,
                  if send_throws e (socket c) then Threw else Sent) \<in> set ?new"
      by (force simp add: image_iff)
    with ev show "\<exists>ev. e_text ev = submitted_text body
          \<and> (socket c, ev, if send_throws e (socket c) then Threw else Sent) \<in> set ?new"
      by blast
  qed
  ultimately show ?thesis by blast
qed

theorem text_kept_as_submitted_witness:
  "(\<exists>row new.
      messages (snd (send_message sample_env sample_state ''u1'' (body_of sample_text_request)))
        = messages sample_state @ [row]
      \<and> wire (snd (send_message sample_env sample_state ''u1'' (body_of sample_text_request)))
        = wire sample_state @ new
      \<and> m_text row = Some ''  hi ''
      \<and> (\<forall>x \<in> set new. e_text (fst (snd x)) = Some ''  hi '')
      \<and> (\<forall>c \<in> set (wsClients sample_state). conversationId c = m_conversation_id row \<longrightarrow>
            (\<exists>ev. e_text ev = Some ''  hi ''
               \<and> (socket c, ev, if send_throws sample_env (socket c) then Threw else Sent) \<in> set new)))
   \<and> map (\<lambda>x. (fst x, e_text (fst (snd x)), snd (snd x)))
        (wire (snd (send_message sample_env sample_state ''u1'' (body_of sample_text_request))))
       = [(0, Some ''  hi '', Threw), (1, Some ''  hi '', Sent)]
   \<and> js_trim ''  hi '' = ''hi''
   \<and> (\<exists>row new.
      messages (snd (send_message sample_env sample_state ''u1'' (body_of sample_image_request)))
        = messages sample_state @ [row]
      \<and> wire (snd (send_message sample_env sample_state ''u1'' (body_of sample_image_request)))
        = wire sample_state @ new
      \<and> m_text row = Some '' caption''
      \<and> (\<forall>x \<in> set new. e_text (fst (snd x)) = Some '' caption'')
      \<and> (\<forall>c \<in> set (wsClients sample_state). conversationId c = m_conversation_id row \<longrightarrow>
            (\<exists>ev. e_text ev = Some '' caption''
               \<and> (socket c, ev, if send_throws sample_env (socket c) then Threw else Sent) \<in> set new)))"
proof -
  have s: "send_message sample_env sample_state ''u1'' (body_of sample_text_request) =
      (Inr ''m1'', snd (send_message sample_env sample_state ''u1'' (body_of sample_text_request)))"
    by (rule sample_text_accepted) (simp_all add: sample_env_def)
  have trim: "js_trim ''  hi '' = ''hi''"
    by (simp add: js_trim_def is_ws_def)
  have w: "map (\<lambda>x. (fst x, e_text (fst (snd x)), snd (snd x)))
        (wire (snd (send_message sample_env sample_state ''u1'' (body_of sample_text_request))))
       = [(0, Some ''  hi '', Threw), (1, Some ''  hi '', Sent)]"
    by (simp add: sample_text_send)
  from text_kept_as_submitted [OF s] text_kept_as_submitted [OF sample_image_accepted] trim w
  show ?thesis by (simp add: sample_submitted_texts)
qed

subsection \<open>Handshake and teardown\<close>

text \<open>
  C4. The handler of \<open>/ws\<close> adds a record to \<open>wsClients\<close> only when the handshake
  supplied a token (header first, else query), the token verified, a conversationId was
  supplied, and \<open>isParticipant\<close> was true for that conversation and the user of the
  token; the record added is theirs. When no user and conversation pass these checks
  the handler closes the socket and leaves \<open>wsClients\<close> as it was. In every state of a
  run, each registered connection's user is a participant of its conversation.
\<close>

theorem ws_handler_registers_only_participants:
  "(handshake_passes e st req u cid \<longrightarrow>
      ws_handler e st sock req =
        st\<lparr>wsClients := wsClients st @ [\<lparr>uid = u, conversationId = cid, socket = sock\<rparr>]\<rparr>)
   \<and> ((\<forall>u cid. \<not> handshake_passes e st req u cid) \<longrightarrow>
      ws_handler e st sock req = st\<lparr>closed := closed st @ [sock]\<rparr>)
   \<and> (wsClients (ws_handler e st sock req) \<noteq> wsClients st \<longrightarrow>
      (\<exists>u cid. handshake_passes e st req u cid))
   \<and> (reachable st \<longrightarrow>
      (\<forall>c \<in> set (wsClients st). isParticipant st (conversationId c) (uid c)))"
proof -
  have "wsClients (ws_handler e st sock req) \<noteq> wsClients st \<longrightarrow>
      (\<exists>u cid. handshake_passes e st req u cid)"
  proof (intro impI, rule ccontr)
    assume changed: "wsClients (ws_handler e st sock req) \<noteq> wsClients st"
      and "\<not> (\<exists>u cid. handshake_passes e st req u cid)"
    then have "ws_handler e st sock req = st\<lparr>closed := closed st @ [sock]\<rparr>"
      using ws_handler_fails [of e st req sock] by simp
    then have "wsClients (ws_handler e st sock req) = wsClients st" by simp
    with changed show False by simp
  qed
  then show ?thesis
    using ws_handler_passes [of e st req u cid sock] ws_handler_fails [of e st req sock]
      reachable_participants [of st]
    by blast
qed

theorem ws_handler_registers_only_participants_witness:
  "handshake_passes sample_env sample_state member_handshake ''u1'' conv1
   \<and> ws_handler sample_env sample_state 3 member_handshake =
       sample_state\<lparr>wsClients := wsClients sample_state @
          [\<lparr>uid = ''u1'', conversationId = conv1, socket = 3\<rparr>]\<rparr>
   \<and> ws_handler sample_env sample_state 4 outsider_handshake =
       sample_state\<lparr>closed := closed sample_state @ [4]\<rparr>
   \<and> ws_handler sample_env sample_state 5 anonymous_handshake =
       sample_state\<lparr>closed := closed sample_state @ [5]\<rparr>
   \<and> reachable (ws_handler sample_env (sample_state\<lparr>wsClients := []\<rparr>) 0 member_handshake)
   \<and> isParticipant (ws_handler sample_env (sample_state\<lparr>wsClients := []\<rparr>) 0 member_handshake)
        conv1 ''u1''"
proof -
  have m: "handshake_passes sample_env sample_state member_handshake ''u1'' conv1"
    using sample_member_passes [of "wsClients sample_state"] by simp
  show ?thesis
    using ws_handler_registers_only_participants [of sample_env sample_state member_handshake
            "''u1''" conv1 3]
          ws_handler_registers_only_participants [of sample_env sample_state outsider_handshake
            "''u1''" conv1 4]
          ws_handler_registers_only_participants [of sample_env sample_state anonymous_handshake
            "''u1''" conv1 5]
          ws_handler_registers_only_participants
            [of sample_env "ws_handler sample_env (sample_state\<lparr>wsClients := []\<rparr>) 0 member_handshake"
              member_handshake "''u1''" conv1 0]
          m sample_outsider_fails sample_anonymous_fails sample_run sample_run_clients
    by simp
qed

text \<open>
  C8. Running the \<open>close\<close> listener twice for the same record gives the state that
  running it once gives, in every state whose registry holds no record twice, and so in
  every state of a run. The listener has no failing branch: \<open>splice\<close> is only called
  with the index \<open>indexOf\<close> found.
\<close>

theorem on_close_idempotent:
  "(distinct (wsClients st) \<longrightarrow> on_close (on_close st c) c = on_close st c)
   \<and> (reachable st \<longrightarrow> on_close (on_close st c) c = on_close st c)"
  using on_close_twice [of st c] reachable_distinct [of st] by blast

theorem on_close_idempotent_witness:
  "distinct (wsClients sample_state)
   \<and> on_close (on_close sample_state \<lparr>uid = ''u1'', conversationId = conv1, socket = 0\<rparr>)
        \<lparr>uid = ''u1'', conversationId = conv1, socket = 0\<rparr>
     = on_close sample_state \<lparr>uid = ''u1'', conversationId = conv1, socket = 0\<rparr>
   \<and> wsClients (on_close sample_state \<lparr>uid = ''u1'', conversationId = conv1, socket = 0\<rparr>) =
       [\<lparr>uid = ''u2'', conversationId = conv1, socket = 1\<rparr>,
        \<lparr>uid = ''u3'', conversationId = conv2, socket = 2\<rparr>]
   \<and> reachable (ws_handler sample_env (sample_state\<lparr>wsClients := []\<rparr>) 0 member_handshake)
   \<and> on_close (on_close (ws_handler sample_env (sample_state\<lparr>wsClients := []\<rparr>) 0 member_handshake)
          \<lparr>uid = ''u1'', conversationId = conv1, socket = 0\<rparr>)
        \<lparr>uid = ''u1'', conversationId = conv1, socket = 0\<rparr>
     = on_close (ws_handler sample_env (sample_state\<lparr>wsClients := []\<rparr>) 0 member_handshake)
        \<lparr>uid = ''u1'', conversationId = conv1, socket = 0\<rparr>"
proof -
  have d: "distinct (wsClients sample_state)"
    by (simp add: sample_state_def)
  have r: "wsClients (on_close sample_state \<lparr>uid = ''u1'', conversationId = conv1, socket = 0\<rparr>) =
       [\<lparr>uid = ''u2'', conversationId = conv1, socket = 1\<rparr>,
        \<lparr>uid = ''u3'', conversationId = conv2, socket = 2\<rparr>]"
    by (simp add: on_close_remove1) (simp add: sample_state_def)
  show ?thesis
    using on_close_idempotent [of sample_state "\<lparr>uid = ''u1'', conversationId = conv1, socket = 0\<rparr>"]
          on_close_idempotent
            [of "ws_handler sample_env (sample_state\<lparr>wsClients := []\<rparr>) 0 member_handshake"
                "\<lparr>uid = ''u1'', conversationId = conv1, socket = 0\<rparr>"]
          d r sample_run
    by simp
qed

subsection \<open>History\<close>

text \<open>
  C7. A caller who is not a participant of the conversation gets Forbidden (403) and no
  messages. A participant gets at most 500 rows, in ascending order of creation time,
  each the selected columns of a stored message of the requested conversation.
\<close>

theorem history_capped_sorted_guarded:
  "(\<not> isParticipant st cid u \<longrightarrow> get_messages st u cid = Inl Sem_acesso \<and> status_code Sem_acesso = 403)
   \<and> (isParticipant st cid u \<longrightarrow>
        (\<exists>rows. get_messages st u cid = Inr (map select_columns rows)
           \<and> length (map select_columns rows) \<le> 500
           \<and> sorted (map h_createdAt (map select_columns rows))
           \<and> (\<forall>m \<in> set rows. m \<in> set (messages st) \<and> m_conversation_id m = cid)))"
proof -
  have cols: "map h_createdAt (map select_columns (history_rows st cid)) =
        map m_created_at (history_rows st cid)"
    by (simp add: select_columns_def)
  have "isParticipant st cid u \<longrightarrow>
        (\<exists>rows. get_messages st u cid = Inr (map select_columns rows)
           \<and> length (map select_columns rows) \<le> 500
           \<and> sorted (map h_createdAt (map select_columns rows))
           \<and> (\<forall>m \<in> set rows. m \<in> set (messages st) \<and> m_conversation_id m = cid))"
  proof
    assume p: "isParticipant st cid u"
    have "get_messages st u cid = Inr (map select_columns (history_rows st cid))"
      using p by (simp add: get_messages_def)
    moreover have "length (map select_columns (history_rows st cid)) \<le> 500"
      using history_rows_props(1) [of st cid] by simp
    moreover have "sorted (map h_createdAt (map select_columns (history_rows st cid)))"
      unfolding cols by (rule history_rows_props(2))
    ultimately show "\<exists>rows. get_messages st u cid = Inr (map select_columns rows)
           \<and> length (map select_columns rows) \<le> 500
           \<and> sorted (map h_createdAt (map select_columns rows))
           \<and> (\<forall>m \<in> set rows. m \<in> set (messages st) \<and> m_conversation_id m = cid)"
      using history_rows_props(3) [of st cid] by blast
  qed
  then show ?thesis by (simp add: get_messages_def)
qed

theorem history_capped_sorted_guarded_witness:
  "isParticipant (sample_state\<lparr>messages := sample_messages\<rparr>) conv1 ''u1''
   \<and> (\<exists>rows. get_messages (sample_state\<lparr>messages := sample_messages\<rparr>) ''u1'' conv1
                = Inr (map select_columns rows)
          \<and> length (map select_columns rows) \<le> 500
          \<and> sorted (map h_createdAt (map select_columns rows))
          \<and> (\<forall>m \<in> set rows. m \<in> set sample_messages \<and> m_conversation_id m = conv1))
   \<and> map h_id (projr (get_messages (sample_state\<lparr>messages := sample_messages\<rparr>) ''u1'' conv1))
       = [''m1'', ''m3'']
   \<and> \<not> isParticipant (sample_state\<lparr>messages := sample_messages\<rparr>) conv1 ''u3''
   \<and> get_messages (sample_state\<lparr>messages := sample_messages\<rparr>) ''u3'' conv1 = Inl Sem_acesso"
proof -
  have p: "isParticipant (sample_state\<lparr>messages := sample_messages\<rparr>) conv1 ''u1''"
    "\<not> isParticipant (sample_state\<lparr>messages := sample_messages\<rparr>) conv1 ''u3''"
    using sample_participants by (simp_all add: isParticipant_filter)
  show ?thesis
    using history_capped_sorted_guarded [of "sample_state\<lparr>messages := sample_messages\<rparr>" conv1 "''u1''"]
          history_capped_sorted_guarded [of "sample_state\<lparr>messages := sample_messages\<rparr>" conv1 "''u3''"]
          p sample_history
    by simp
qed

end
